theory Spec2Isabelle
  imports Complex_Main
begin

section \<open>JavaScript values used by the web client\<close>

text \<open>
  The client (\<^verbatim>\<open>client/src\<close>) is TypeScript. A value parsed from a response body is a
  JSON value. An object keeps its members in the order of the text; when a key is written
  twice, \<^verbatim>\<open>JSON.parse\<close> keeps the last one. Numbers are modelled as exact reals.
  A \<^typ>\<open>string\<close> stands for a JavaScript string, one element per code unit.
\<close>

datatype json =
    JNull
  | JBool bool
  | JNumber real
  | JString string
  | JArray "json list"
  | JObject "(string \<times> json) list"

text \<open>
  What a rejected promise or a \<^verbatim>\<open>throw\<close> carries. All errors met here are instances of
  \<^verbatim>\<open>Error\<close>, so each has a message. The message of \<^verbatim>\<open>new Error(v)\<close> is
  \<^verbatim>\<open>String(v)\<close>: for a string \<open>v\<close> it is \<open>v\<close> itself (\<open>Text\<close>), for any other JSON
  value its string conversion, kept symbolic (\<open>StringOf\<close>). The text of an error raised by
  the JavaScript runtime itself (a \<^verbatim>\<open>TypeError\<close>, a \<^verbatim>\<open>SyntaxError\<close> of \<^verbatim>\<open>JSON.parse\<close>, a
  failed \<^verbatim>\<open>fetch\<close>) or by a library is chosen there (\<open>RuntimeText\<close>). \<open>Template p v s\<close> is the template
  literal that puts the string conversion of \<open>v\<close> (\<open>None\<close> is \<^verbatim>\<open>undefined\<close>) between \<open>p\<close>
  and \<open>s\<close>.
\<close>

datatype message =
    Text string
  | StringOf json
  | Template string "json option" string
  | RuntimeText

datatype js_error = Error message | TypeError message | SyntaxError message

fun error_message :: "js_error \<Rightarrow> message" where
  "error_message (Error m) = m"
| "error_message (TypeError m) = m"
| "error_message (SyntaxError m) = m"

text \<open>
  \<^verbatim>\<open>v.k\<close> for a JSON value \<open>v\<close>: reading a property of \<^verbatim>\<open>null\<close> throws a
  \<^verbatim>\<open>TypeError\<close>; an object yields the member (the last one of that key) or
  \<^verbatim>\<open>undefined\<close> (\<open>None\<close>); every other value has no such property.
\<close>

fun member_of :: "json \<Rightarrow> string \<Rightarrow> json option" where
  "member_of (JObject kvs) k = map_of (rev kvs) k"
| "member_of _ k = None"

fun read_property :: "json \<Rightarrow> string \<Rightarrow> js_error + json option" where
  "read_property JNull k = Inl (TypeError RuntimeText)"
| "read_property v k = Inr (member_of v k)"

text \<open>Truthiness, as \<^verbatim>\<open>||\<close> and \<^verbatim>\<open>if\<close> test it.\<close>

fun truthy :: "json option \<Rightarrow> bool" where
  "truthy None = False"
| "truthy (Some JNull) = False"
| "truthy (Some (JBool b)) = b"
| "truthy (Some (JNumber n)) = (n \<noteq> 0)"
| "truthy (Some (JString s)) = (s \<noteq> [])"
| "truthy (Some (JArray xs)) = True"
| "truthy (Some (JObject kvs)) = True"

fun message_of_value :: "json \<Rightarrow> message" where
  "message_of_value (JString s) = Text s"
| "message_of_value v = StringOf v"

text \<open>Decimal digits of a number inside a template literal.\<close>

fun show_nat :: "nat \<Rightarrow> string" where
  "show_nat n =
     (if n < 10 then [''0123456789'' ! n]
      else show_nat (n div 10) @ [''0123456789'' ! (n mod 10)])"

declare show_nat.simps [simp del]

text \<open>\<^verbatim>\<open>String.prototype.toLowerCase\<close> on the ASCII letters; other code units are kept.
  The extensions compared below are ASCII, and no other character lower-cases to one of
  their letters.\<close>

definition lower_char :: "char \<Rightarrow> char" where
  "lower_char c =
     (case map_of (zip ''ABCDEFGHIJKLMNOPQRSTUVWXYZ'' ''abcdefghijklmnopqrstuvwxyz'') c of
        None \<Rightarrow> c
      | Some l \<Rightarrow> l)"

definition toLowerCase :: "string \<Rightarrow> string" where
  "toLowerCase s = map lower_char s"

text \<open>\<^verbatim>\<open>s.split(c)\<close> for a one-character separator: never the empty array.\<close>

fun split_on :: "char \<Rightarrow> string \<Rightarrow> string list" where
  "split_on c [] = [[]]"
| "split_on c (x # xs) =
     (if x = c then [] # split_on c xs
      else (case split_on c xs of
              [] \<Rightarrow> [[x]]
            | w # ws \<Rightarrow> (x # w) # ws))"

text \<open>\<^verbatim>\<open>Array.prototype.pop\<close>: the last element, \<^verbatim>\<open>undefined\<close> on the empty array.\<close>

definition pop :: "'a list \<Rightarrow> 'a option" where
  "pop xs = (if xs = [] then None else Some (last xs))"

definition endsWith :: "string \<Rightarrow> string \<Rightarrow> bool" where
  "endsWith s suffix = (length suffix \<le> length s \<and> drop (length s - length suffix) s = suffix)"

fun join :: "string \<Rightarrow> string list \<Rightarrow> string" where
  "join sep [] = []"
| "join sep [w] = w"
| "join sep (w # ws) = w @ sep @ join sep ws"

section \<open>The OCR API client (\<^verbatim>\<open>lib/ocr-api\<close>, in \<^verbatim>\<open>src/unnamed/part_002\<close>)\<close>

record File =
  name :: string
  type :: string
  file_size :: nat

record OCRRequest =
  request_file :: File
  ground_truth :: "string option"
  expected_fields :: "string list option"
  schema :: "json option"

text \<open>A field of the multipart form: the file, a string, or \<^verbatim>\<open>JSON.stringify\<close> of a value.\<close>

datatype form_value = FileField File | TextField string | Stringified json

record http_request =
  url :: string
  http_method :: string
  form :: "(string \<times> form_value) list"

text \<open>
  A response: its status and its body as \<^verbatim>\<open>response.json()\<close> reads it, \<open>None\<close> when
  the body is not JSON. \<^verbatim>\<open>response.ok\<close> is true for the statuses 200 to 299.
\<close>

record http_response =
  status :: nat
  body :: "json option"

definition ok :: "http_response \<Rightarrow> bool" where
  "ok response = (200 \<le> status response \<and> status response \<le> 299)"

text \<open>\<^verbatim>\<open>process.env.NEXT_PUBLIC_API_BASE_URL || 'http://127.0.0.1:8000'\<close>\<close>

definition API_BASE_URL :: "string option \<Rightarrow> string" where
  "API_BASE_URL env =
     (case env of
        None \<Rightarrow> ''http://127.0.0.1:8000''
      | Some s \<Rightarrow> if s = [] then ''http://127.0.0.1:8000'' else s)"

definition ocr_form :: "OCRRequest \<Rightarrow> (string \<times> form_value) list" where
  "ocr_form request =
     [(''file'', FileField (request_file request))]
     @ (case ground_truth request of
          None \<Rightarrow> []
        | Some g \<Rightarrow> if g = [] then [] else [(''ground_truth'', TextField g)])
     @ (case expected_fields request of
          None \<Rightarrow> []
        | Some fs \<Rightarrow> [(''expected_fields'', Stringified (JArray (map JString fs)))])
     @ (case schema request of
          None \<Rightarrow> []
        | Some s \<Rightarrow> if truthy (Some s) then [(''schema'', Stringified s)] else [])"

definition ocr_process_request :: "string option \<Rightarrow> OCRRequest \<Rightarrow> http_request" where
  "ocr_process_request env request =
     \<lparr>url = API_BASE_URL env @ ''/ocr/process'', http_method = ''POST'',
      form = ocr_form request\<rparr>"

text \<open>
  \<^verbatim>\<open>processDocumentOCR\<close>. The network is the parameter \<open>fetch\<close>, which resolves with a
  response or rejects. On a response that is not ok, the body is read with
  \<^verbatim>\<open>response.json().catch(() => ({}))\<close> and
  \<^verbatim>\<open>new Error(errorData.detail || `HTTP error! status: ${response.status}`)\<close> is thrown;
  otherwise \<^verbatim>\<open>response.json()\<close> is returned as it is, with no check of its shape.
\<close>

definition processDocumentOCR ::
  "string option \<Rightarrow> (http_request \<Rightarrow> js_error + http_response) \<Rightarrow> OCRRequest \<Rightarrow> js_error + json"
where
  "processDocumentOCR env fetch request =
     (case fetch (ocr_process_request env request) of
        Inl e \<Rightarrow> Inl e
      | Inr response \<Rightarrow>
          if \<not> ok response then
            (let errorData = (case body response of None \<Rightarrow> JObject [] | Some j \<Rightarrow> j) in
             case read_property errorData ''detail'' of
               Inl e \<Rightarrow> Inl e
             | Inr detail \<Rightarrow>
                 (case detail of
                    Some d \<Rightarrow>
                      if truthy (Some d) then Inl (Error (message_of_value d))
                      else Inl (Error (Text (''HTTP error! status: ''
                                               @ show_nat (status response))))
                  | None \<Rightarrow>
                      Inl (Error (Text (''HTTP error! status: ''
                                          @ show_nat (status response))))))
          else
            (case body response of
               None \<Rightarrow> Inl (SyntaxError RuntimeText)
             | Some j \<Rightarrow> Inr j))"

subsection \<open>The interface \<^verbatim>\<open>OCRResponse\<close>\<close>

text \<open>
  The interfaces \<^verbatim>\<open>ColumnData\<close>, \<^verbatim>\<open>PageData\<close> and \<^verbatim>\<open>OCRResponse\<close> as predicates on JSON
  values: a member without \<^verbatim>\<open>?\<close> must be there with its type, a member with \<^verbatim>\<open>?\<close> is
  either missing or has its type.
\<close>

fun is_string :: "json \<Rightarrow> bool" where
  "is_string (JString s) = True"
| "is_string _ = False"

fun is_number :: "json \<Rightarrow> bool" where
  "is_number (JNumber n) = True"
| "is_number _ = False"

fun is_boolean :: "json \<Rightarrow> bool" where
  "is_boolean (JBool b) = True"
| "is_boolean _ = False"

fun is_object :: "json \<Rightarrow> bool" where
  "is_object (JObject kvs) = True"
| "is_object _ = False"

fun is_array_of :: "(json \<Rightarrow> bool) \<Rightarrow> json \<Rightarrow> bool" where
  "is_array_of P (JArray xs) = list_all P xs"
| "is_array_of P _ = False"

text \<open>\<^verbatim>\<open>Record<string, any>\<close> admits every object, an array too.\<close>

fun is_any_record :: "json \<Rightarrow> bool" where
  "is_any_record (JObject kvs) = True"
| "is_any_record (JArray xs) = True"
| "is_any_record _ = False"

text \<open>\<^verbatim>\<open>Record<string, T>\<close>: an object all of whose members have type \<open>T\<close>.\<close>

fun is_record_of :: "(json \<Rightarrow> bool) \<Rightarrow> json \<Rightarrow> bool" where
  "is_record_of P (JObject kvs) =
     list_all (\<lambda>k. case map_of (rev kvs) k of None \<Rightarrow> True | Some v \<Rightarrow> P v) (map fst kvs)"
| "is_record_of P _ = False"

definition required :: "(json \<Rightarrow> bool) \<Rightarrow> json \<Rightarrow> string \<Rightarrow> bool" where
  "required P j k = (case member_of j k of None \<Rightarrow> False | Some v \<Rightarrow> P v)"

definition optional :: "(json \<Rightarrow> bool) \<Rightarrow> json \<Rightarrow> string \<Rightarrow> bool" where
  "optional P j k = (case member_of j k of None \<Rightarrow> True | Some v \<Rightarrow> P v)"

definition is_side :: "json \<Rightarrow> bool" where
  "is_side j = (j = JString ''left'' \<or> j = JString ''right'')"

definition is_ColumnData :: "json \<Rightarrow> bool" where
  "is_ColumnData j =
     (is_object j \<and> required is_string j ''text'' \<and> required is_side j ''side''
      \<and> required is_string j ''language'' \<and> required is_number j ''items_count''
      \<and> required is_number j ''confidence_avg'')"

definition is_PageData :: "json \<Rightarrow> bool" where
  "is_PageData j =
     (is_object j \<and> required is_number j ''page_number'' \<and> required is_string j ''text''
      \<and> required (is_array_of is_ColumnData) j ''columns''
      \<and> required is_number j ''columns_count''
      \<and> required is_boolean j ''has_multiple_columns'')"



definition is_OCRResponse :: "json \<Rightarrow> bool" where
  "is_OCRResponse j =
     (is_object j
      \<and> required is_string j ''extracted_text''
      \<and> required is_any_record j ''structured_data''
      \<and> required (is_record_of is_number) j ''metrics''
      \<and> required is_boolean j ''json_validity''
      \<and> required is_boolean j ''schema_consistency''
      \<and> required is_number j ''processing_time''
      \<and> optional (is_array_of is_PageData) j ''pages''
      \<and> optional is_number j ''total_pages''
      \<and> optional is_boolean j ''has_multiple_columns''
      \<and> optional (is_array_of is_ColumnData) j ''columns''
      \<and> optional is_number j ''columns_count'')"


section \<open>The upload components\<close>

text \<open>
  A handler is modelled by the trace of what it does, in order: the state setters of the
  component, the timers it starts, the calls it makes to its properties, to the toast hook
  and to \<^verbatim>\<open>processDocumentOCR\<close>. A property that is optional (\<^verbatim>\<open>onOCRComplete?.(r)\<close>) is
  called when the parent gave it; the trace records the call.
\<close>

record toast =
  variant :: "string option"
  title :: string
  description :: message

datatype effect =
    Toast toast
  | OnFileUpload File
  | SetIsProcessing bool
  | SetProgress nat
  | SetResult "json option"
  | StartProgressInterval
  | ClearProgressInterval
  | ScheduleProgressReset
  | ProcessDocumentOCR OCRRequest
  | OnOCRComplete json
  | OnError message
  | ConsoleError js_error

subsection \<open>\<^verbatim>\<open>DocUpload.handleFile\<close> (\<^verbatim>\<open>components/doc-upload\<close>, in \<^verbatim>\<open>src/unnamed/part_001\<close>)\<close>

definition DocUpload_supported :: "File \<Rightarrow> bool" where
  "DocUpload_supported f =
     (type f = ''text/plain'' \<or> endsWith (name f) ''.txt''
      \<or> type f = ''application/pdf'' \<or> endsWith (name f) ''.pdf'')"

definition DocUpload_handleFile :: "File option \<Rightarrow> effect list" where
  "DocUpload_handleFile fo =
     (case fo of
        None \<Rightarrow> []
      | Some f \<Rightarrow>
          if DocUpload_supported f then [OnFileUpload f]
          else [Toast \<lparr>variant = Some ''destructive'', title = ''Invalid File Type'',
                        description = Text ''Please upload a .txt or .pdf file.''\<rparr>])"

subsection \<open>\<^verbatim>\<open>OCRUpload.handleFile\<close> (\<^verbatim>\<open>components/ocr-upload.tsx\<close>)\<close>

text \<open>
  The texts of the toasts are Russian in the source; they are given here by their UTF-8
  bytes. In order: "unsupported file format", "supported formats: ", "the file is too
  large", "maximal file size: 10MB", "OCR processing finished", "extracted ",
  " characters", "OCR processing error".
\<close>

definition title_unsupported_format :: string where
  "title_unsupported_format = map char_of
     [208, 157, 208, 181, 208, 191, 208, 190, 208, 180, 208, 180, 208, 181, 209, 128, 208,
      182, 208, 184, 208, 178, 208, 176, 208, 181, 208, 188, 209, 139, 208, 185, 32, 209,
      132, 208, 190, 209, 128, 208, 188, 208, 176, 209, 130, 32, 209, 132, 208, 176, 208,
      185, 208, 187, 208, 176 :: nat]"

definition supported_formats_prefix :: string where
  "supported_formats_prefix = map char_of
     [208, 159, 208, 190, 208, 180, 208, 180, 208, 181, 209, 128, 208, 182, 208, 184, 208,
      178, 208, 176, 208, 181, 208, 188, 209, 139, 208, 181, 32, 209, 132, 208, 190, 209,
      128, 208, 188, 208, 176, 209, 130, 209, 139, 58, 32 :: nat]"

definition title_file_too_large :: string where
  "title_file_too_large = map char_of
     [208, 164, 208, 176, 208, 185, 208, 187, 32, 209, 129, 208, 187, 208, 184, 209, 136,
      208, 186, 208, 190, 208, 188, 32, 208, 177, 208, 190, 208, 187, 209, 140, 209, 136,
      208, 190, 208, 185 :: nat]"

definition description_file_too_large :: string where
  "description_file_too_large = map char_of
     [208, 156, 208, 176, 208, 186, 209, 129, 208, 184, 208, 188, 208, 176, 208, 187, 209,
      140, 208, 189, 209, 139, 208, 185, 32, 209, 128, 208, 176, 208, 183, 208, 188, 208,
      181, 209, 128, 32, 209, 132, 208, 176, 208, 185, 208, 187, 208, 176, 58, 32, 49, 48,
      77, 66 :: nat]"

definition title_ocr_done :: string where
  "title_ocr_done = map char_of
     [79, 67, 82, 32, 208, 190, 208, 177, 209, 128, 208, 176, 208, 177, 208, 190, 209, 130,
      208, 186, 208, 176, 32, 208, 183, 208, 176, 208, 178, 208, 181, 209, 128, 209, 136,
      208, 181, 208, 189, 208, 176 :: nat]"

definition extracted_prefix :: string where
  "extracted_prefix = map char_of
     [208, 152, 208, 183, 208, 178, 208, 187, 208, 181, 209, 135, 208, 181, 208, 189, 208,
      190, 32 :: nat]"

definition extracted_suffix :: string where
  "extracted_suffix = map char_of
     [32, 209, 129, 208, 184, 208, 188, 208, 178, 208, 190, 208, 187, 208, 190, 208,
      178 :: nat]"

definition title_ocr_failed :: string where
  "title_ocr_failed = map char_of
     [208, 158, 209, 136, 208, 184, 208, 177, 208, 186, 208, 176, 32, 79, 67, 82, 32, 208,
      190, 208, 177, 209, 128, 208, 176, 208, 177, 208, 190, 209, 130, 208, 186,
      208, 184 :: nat]"

definition supportedFormats :: "string list" where
  "supportedFormats = [''.jpg'', ''.jpeg'', ''.png'', ''.bmp'', ''.tiff'', ''.pdf'']"

text \<open>\<^verbatim>\<open>'.' + file.name.split('.').pop()?.toLowerCase()\<close>; adding \<^verbatim>\<open>undefined\<close> to a
  string appends the word.\<close>

definition fileExtension :: "File \<Rightarrow> string" where
  "fileExtension f =
     (case pop (split_on CHR ''.'' (name f)) of
        None \<Rightarrow> ''.undefined''
      | Some s \<Rightarrow> ''.'' @ toLowerCase s)"

text \<open>\<^verbatim>\<open>ocrResult.extracted_text.length\<close>: a \<^verbatim>\<open>TypeError\<close> when the result is
  \<^verbatim>\<open>null\<close>, or has no such member, or the member is \<^verbatim>\<open>null\<close>. A string and an array
  have their length, an object its member of that name, a number and a boolean none
  (\<^verbatim>\<open>undefined\<close>).\<close>

definition extracted_text_length :: "json \<Rightarrow> js_error + json option" where
  "extracted_text_length r =
     (case read_property r ''extracted_text'' of
        Inl e \<Rightarrow> Inl e
      | Inr None \<Rightarrow> Inl (TypeError RuntimeText)
      | Inr (Some JNull) \<Rightarrow> Inl (TypeError RuntimeText)
      | Inr (Some (JString s)) \<Rightarrow> Inr (Some (JNumber (real (length s))))
      | Inr (Some (JArray xs)) \<Rightarrow> Inr (Some (JNumber (real (length xs))))
      | Inr (Some v) \<Rightarrow> Inr (member_of v ''length''))"

text \<open>The \<^verbatim>\<open>catch\<close> block and the \<^verbatim>\<open>finally\<close> block of the handler.\<close>

definition OCRUpload_catch :: "js_error \<Rightarrow> effect list" where
  "OCRUpload_catch e =
     [ConsoleError e,
      Toast \<lparr>variant = Some ''destructive'', title = title_ocr_failed,
             description = error_message e\<rparr>,
      OnError (error_message e)]"

definition OCRUpload_finally :: "effect list" where
  "OCRUpload_finally = [SetIsProcessing False, ScheduleProgressReset]"

definition OCRUpload_handleFile ::
  "string option \<Rightarrow> (http_request \<Rightarrow> js_error + http_response) \<Rightarrow> File option \<Rightarrow> effect list"
where
  "OCRUpload_handleFile env fetch fo =
     (case fo of
        None \<Rightarrow> []
      | Some f \<Rightarrow>
          if fileExtension f \<notin> set supportedFormats then
            [Toast \<lparr>variant = Some ''destructive'', title = title_unsupported_format,
                    description = Text (supported_formats_prefix @ join '', '' supportedFormats)\<rparr>]
          else if file_size f > 10 * 1024 * 1024 then
            [Toast \<lparr>variant = Some ''destructive'', title = title_file_too_large,
                    description = Text description_file_too_large\<rparr>]
          else
            (let request = \<lparr>request_file = f, ground_truth = None, expected_fields = None,
                            schema = None\<rparr>
             in [SetIsProcessing True, SetProgress 0, SetResult None, StartProgressInterval,
                 ProcessDocumentOCR request]
                @ (case processDocumentOCR env fetch request of
                     Inl e \<Rightarrow> OCRUpload_catch e
                   | Inr ocrResult \<Rightarrow>
                       [ClearProgressInterval, SetProgress 100, SetResult (Some ocrResult),
                        OnOCRComplete ocrResult]
                       @ (case extracted_text_length ocrResult of
                            Inl e \<Rightarrow> OCRUpload_catch e
                          | Inr n \<Rightarrow>
                              [Toast \<lparr>variant = None, title = title_ocr_done,
                                      description =
                                        Template extracted_prefix n extracted_suffix\<rparr>]))
                @ OCRUpload_finally))"

text \<open>The calls that hand a file on for processing.\<close>

fun is_processing_call :: "effect \<Rightarrow> bool" where
  "is_processing_call (OnFileUpload f) = True"
| "is_processing_call (ProcessDocumentOCR r) = True"
| "is_processing_call _ = False"

fun is_toast :: "effect \<Rightarrow> bool" where
  "is_toast (Toast t) = True"
| "is_toast _ = False"

section \<open>The chat action \<^verbatim>\<open>askQuestion\<close> (in \<^verbatim>\<open>ai/flows/llm-chat-with-document.ts\<close>)\<close>







section \<open>Page navigation of \<^verbatim>\<open>OCRColumnsDisplay\<close> (in \<^verbatim>\<open>src/unnamed/part_000\<close>)\<close>

text \<open>
  The component holds \<^verbatim>\<open>currentPage\<close>, a number that starts at 0. \<open>pages\<close> is the member
  \<^verbatim>\<open>result.pages\<close> of its property, which may be missing.
\<close>

definition initial_currentPage :: int where
  "initial_currentPage = 0"

definition hasPages :: "'p list option \<Rightarrow> bool" where
  "hasPages pages = (case pages of None \<Rightarrow> False | Some ps \<Rightarrow> length ps > 0)"

definition goToPrevPage :: "'p list option \<Rightarrow> int \<Rightarrow> int" where
  "goToPrevPage pages p =
     (case pages of
        None \<Rightarrow> p
      | Some ps \<Rightarrow> if hasPages pages then max 0 (p - 1) else p)"

definition goToNextPage :: "'p list option \<Rightarrow> int \<Rightarrow> int" where
  "goToNextPage pages p =
     (case pages of
        None \<Rightarrow> p
      | Some ps \<Rightarrow> if hasPages pages then min (int (length ps) - 1) (p + 1) else p)"

datatype nav = Prev | Next

fun navigate :: "'p list option \<Rightarrow> int \<Rightarrow> nav list \<Rightarrow> int" where
  "navigate pages p [] = p"
| "navigate pages p (Prev # ns) = navigate pages (goToPrevPage pages p) ns"
| "navigate pages p (Next # ns) = navigate pages (goToNextPage pages p) ns"

text \<open>\<^verbatim>\<open>pages[currentPage]\<close> in \<^verbatim>\<open>renderPages\<close>: \<^verbatim>\<open>undefined\<close> outside the array.\<close>

definition page_at :: "'p list \<Rightarrow> int \<Rightarrow> 'p option" where
  "page_at ps i = (if 0 \<le> i \<and> i < int (length ps) then Some (ps ! nat i) else None)"

section \<open>The quality-metrics engine\<close>

text \<open>
  The engine that computes the report (the service behind \<^verbatim>\<open>POST /ocr/process\<close>) is not
  among the client sources; only the client's declaration of its response and the callers
  are. Its components are defined here from the specification of the engine, section by
  section. Characters are compared as elements of \<^typ>\<open>string\<close>; metric values are exact
  reals.
\<close>

subsection \<open>TextAligner: normalisation\<close>

text \<open>Modelled from the spec: the whitespace characters that normalisation collapses and
  tokenisation splits on (the text aligner is missing from the sources). They are the
  space, the tabulators, the line feed, the form feed and the carriage return.\<close>

definition is_space :: "char \<Rightarrow> bool" where
  "is_space c = (c \<in> set [CHR '' '', CHR 0x09, CHR 0x0A, CHR 0x0B, CHR 0x0C, CHR 0x0D])"

text \<open>Modelled from the spec: case folding, the first step of normalisation (missing from
  the sources). Folding is done on the ASCII letters.\<close>

definition case_fold :: "string \<Rightarrow> string" where
  "case_fold s = map lower_char s"

text \<open>Modelled from the spec: "collapse consecutive whitespace to a single space" (missing
  from the sources). A run of whitespace becomes one space.\<close>

fun collapse_whitespace :: "string \<Rightarrow> string" where
  "collapse_whitespace [] = []"
| "collapse_whitespace [c] = [if is_space c then CHR '' '' else c]"
| "collapse_whitespace (c # d # cs) =
     (if is_space c \<and> is_space d then collapse_whitespace (d # cs)
      else (if is_space c then CHR '' '' else c) # collapse_whitespace (d # cs))"

text \<open>Modelled from the spec: "trim ends" (missing from the sources).\<close>

definition trim :: "string \<Rightarrow> string" where
  "trim s = rev (dropWhile is_space (rev (dropWhile is_space s)))"

text \<open>Modelled from the spec: the normalisation of the text aligner, "case-fold, collapse
  consecutive whitespace to a single space, trim ends", applied to both strings (missing
  from the sources).\<close>

definition normalize_text :: "string \<Rightarrow> string" where
  "normalize_text s = trim (collapse_whitespace (case_fold s))"

text \<open>Modelled from the spec: "tokenize both strings on whitespace" (missing from the
  sources). \<open>cur\<close> is the word being read; empty words are not produced.\<close>

fun tokenize_from :: "string \<Rightarrow> string \<Rightarrow> string list" where
  "tokenize_from cur [] = (if cur = [] then [] else [cur])"
| "tokenize_from cur (c # cs) =
     (if is_space c then (if cur = [] then tokenize_from [] cs else cur # tokenize_from [] cs)
      else tokenize_from (cur @ [c]) cs)"

definition tokenize :: "string \<Rightarrow> string list" where
  "tokenize s = tokenize_from [] s"

subsection \<open>TextAligner: alignment\<close>

text \<open>Modelled from the spec: the alignment of two sequences by "insertions, deletions,
  substitutions, unit cost each", and its "matched (non-substituted, non-inserted,
  non-deleted)" positions (the aligner is missing from the sources). An alignment is the
  list of its steps.\<close>

datatype edit_op = Match | Substitute | Insert | Delete

definition edit_cost :: "edit_op list \<Rightarrow> nat" where
  "edit_cost ops = length (filter (\<lambda>op. op \<noteq> Match) ops)"

definition matched :: "edit_op list \<Rightarrow> nat" where
  "matched ops = length (filter (\<lambda>op. op = Match) ops)"

text \<open>Modelled from the spec: what it is for a list of steps to align the first sequence
  with the second: a match consumes two equal heads, a substitution two heads, a deletion
  a head of the first and an insertion a head of the second, and nothing is left over
  (missing from the sources).\<close>

fun is_alignment :: "edit_op list \<Rightarrow> 'a list \<Rightarrow> 'a list \<Rightarrow> bool" where
  "is_alignment [] xs ys = (xs = [] \<and> ys = [])"
| "is_alignment (Match # ops) xs ys =
     (case (xs, ys) of (x # xs', y # ys') \<Rightarrow> x = y \<and> is_alignment ops xs' ys' | _ \<Rightarrow> False)"
| "is_alignment (Substitute # ops) xs ys =
     (case (xs, ys) of (x # xs', y # ys') \<Rightarrow> is_alignment ops xs' ys' | _ \<Rightarrow> False)"
| "is_alignment (Delete # ops) xs ys =
     (case xs of x # xs' \<Rightarrow> is_alignment ops xs' ys | [] \<Rightarrow> False)"
| "is_alignment (Insert # ops) xs ys =
     (case ys of y # ys' \<Rightarrow> is_alignment ops xs ys' | [] \<Rightarrow> False)"

text \<open>Modelled from the spec: the minimum edit distance, by the recurrence that the dynamic
  programme fills its table with (missing from the sources).\<close>

fun edit_distance :: "'a list \<Rightarrow> 'a list \<Rightarrow> nat" where
  "edit_distance [] ys = length ys"
| "edit_distance (x # xs) [] = Suc (length xs)"
| "edit_distance (x # xs) (y # ys) =
     min (min (edit_distance xs (y # ys) + 1) (edit_distance (x # xs) ys + 1))
         (edit_distance xs ys + (if x = y then 0 else 1))"

text \<open>Modelled from the spec: an alignment of least cost, read off the table (missing
  from the sources). The first sequence is the extracted one, the second the reference:
  \<open>Delete\<close> drops an element of the first, \<open>Insert\<close> supplies one of the second. Equal
  heads are matched; otherwise the cheapest of substitution, deletion and insertion is
  taken, in this order of preference. The spec fixes no order among alignments of equal
  cost.\<close>

fun align :: "'a list \<Rightarrow> 'a list \<Rightarrow> edit_op list" where
  "align [] ys = replicate (length ys) Insert"
| "align (x # xs) [] = replicate (Suc (length xs)) Delete"
| "align (x # xs) (y # ys) =
     (if x = y then Match # align xs ys
      else (let s = Substitute # align xs ys;
                d = Delete # align xs (y # ys);
                i = Insert # align (x # xs) ys
            in if edit_cost s \<le> edit_cost d \<and> edit_cost s \<le> edit_cost i then s
               else if edit_cost d \<le> edit_cost i then d else i))"

subsection \<open>TextAligner: metrics\<close>

text \<open>Modelled from the spec: the length cap of the performance policy, "truncate both
  strings to the cap" before alignment (missing from the sources). The cap is applied to
  the normalised strings, so that strings equal after normalisation stay equal.\<close>

definition truncate_to :: "nat \<Rightarrow> string \<Rightarrow> string" where
  "truncate_to cap s = take cap s"

text \<open>Modelled from the spec: the denominators of the metrics, each guarded by
  \<open>max(1, \<cdot>)\<close> (missing from the sources).\<close>

definition cer_denominator :: "string \<Rightarrow> nat" where
  "cer_denominator g = max 1 (length g)"

definition wer_denominator :: "string \<Rightarrow> nat" where
  "wer_denominator g = max 1 (length (tokenize g))"

definition levenshtein_denominator :: "string \<Rightarrow> string \<Rightarrow> nat" where
  "levenshtein_denominator e g = max 1 (max (length e) (length g))"

definition precision_denominator :: "string \<Rightarrow> nat" where
  "precision_denominator e = max 1 (length e)"

definition recall_denominator :: "string \<Rightarrow> nat" where
  "recall_denominator g = max 1 (length g)"

text \<open>Modelled from the spec: "F1 = harmonic mean, with F1 = 0 when both precision and
  recall are 0" (missing from the sources).\<close>

definition harmonic_mean :: "real \<Rightarrow> real \<Rightarrow> real" where
  "harmonic_mean p r = (if p = 0 \<and> r = 0 then 0 else 2 * p * r / (p + r))"

text \<open>Modelled from the spec: the clamp of the data model, by which \<open>cer\<close>, \<open>wer\<close> and
  \<open>normalized_levenshtein\<close>, "unbounded above in pathological cases", stay in \<open>[0,1]\<close>: a
  value above 1 is reported as 1 (missing from the sources).\<close>

definition clamp_unit :: "real \<Rightarrow> real" where
  "clamp_unit v = min 1 v"

text \<open>Modelled from the spec: the fixed fields of \<open>QualityMetrics\<close> (the metrics calculator
  is missing from the sources). The per-field extension map is kept apart, in the report.\<close>

record QualityMetrics =
  cer :: real
  wer :: real
  normalized_levenshtein :: real
  char_precision :: real
  char_recall :: real
  char_f1 :: real
  exact_match :: real

text \<open>Modelled from the spec: the formulas of the text aligner on the two strings as they
  are aligned, \<open>e\<close> extracted and \<open>g\<close> reference, with the three error rates clamped;
  \<open>same\<close> says whether the normalised strings are equal (missing from the sources).\<close>

definition metrics_of :: "string \<Rightarrow> string \<Rightarrow> bool \<Rightarrow> QualityMetrics" where
  "metrics_of e g same =
     (let chars = align e g;
          words = align (tokenize e) (tokenize g);
          p = real (matched chars) / real (precision_denominator e);
          r = real (matched chars) / real (recall_denominator g)
      in \<lparr>cer = clamp_unit (real (edit_cost chars) / real (cer_denominator g)),
          wer = clamp_unit (real (edit_cost words) / real (wer_denominator g)),
          normalized_levenshtein =
            clamp_unit (real (edit_cost chars) / real (levenshtein_denominator e g)),
          char_precision = p,
          char_recall = r,
          char_f1 = harmonic_mean p r,
          exact_match = (if same then 1 else 0)\<rparr>)"

text \<open>Modelled from the spec: the result of the text aligner: the metrics, omitted when
  no ground truth is given, and the record of whether truncation occurred (missing from
  the sources).\<close>

record alignment_result =
  aligned_metrics :: "QualityMetrics option"
  truncation_occurred :: bool

text \<open>Modelled from the spec: the text aligner. Both strings are normalised, then capped,
  then aligned; \<open>exact_match\<close> compares the normalised strings (missing from the
  sources).\<close>

definition TextAligner :: "nat \<Rightarrow> string \<Rightarrow> string option \<Rightarrow> alignment_result" where
  "TextAligner cap extracted reference =
     (case reference of
        None \<Rightarrow> \<lparr>aligned_metrics = None, truncation_occurred = False\<rparr>
      | Some truth \<Rightarrow>
          (let e = normalize_text extracted; g = normalize_text truth
           in \<lparr>aligned_metrics =
                  Some (metrics_of (truncate_to cap e) (truncate_to cap g) (e = g)),
                truncation_occurred = (length e > cap \<or> length g > cap)\<rparr>))"

subsection \<open>FieldExtractor, FieldScorer and SchemaValidator\<close>

text \<open>Modelled from the spec: the fixed field vocabulary "name, date, phone, email,
  address, passport, inn, amount" (the data extractor is missing from the sources).\<close>

datatype vocabulary_field = FieldName | FieldDate | FieldPhone | FieldEmail | FieldAddress
  | FieldPassport | FieldInn | FieldAmount

fun field_name :: "vocabulary_field \<Rightarrow> string" where
  "field_name FieldName = ''name''"
| "field_name FieldDate = ''date''"
| "field_name FieldPhone = ''phone''"
| "field_name FieldEmail = ''email''"
| "field_name FieldAddress = ''address''"
| "field_name FieldPassport = ''passport''"
| "field_name FieldInn = ''inn''"
| "field_name FieldAmount = ''amount''"

definition field_vocabulary :: "vocabulary_field list" where
  "field_vocabulary = [FieldName, FieldDate, FieldPhone, FieldEmail, FieldAddress,
     FieldPassport, FieldInn, FieldAmount]"

text \<open>Modelled from the spec: an entry of \<open>StructuredData\<close>, "an optional string value and
  an associated extraction confidence" (missing from the sources).\<close>

record extraction =
  extracted_value :: "string option"
  extraction_confidence :: real

type_synonym StructuredData = "(vocabulary_field \<times> extraction) list"

text \<open>Modelled from the spec: the field extractor. The pattern of each field is not given
  by the spec, so the strategies are a parameter: a strategy yields at most one match and
  its confidence. Fields not requested are skipped; an unmatched field has no value and
  confidence 0 (missing from the sources).\<close>

definition FieldExtractor ::
  "(vocabulary_field \<Rightarrow> string \<Rightarrow> (string \<times> real) option) \<Rightarrow> string \<Rightarrow> string list option
   \<Rightarrow> StructuredData"
where
  "FieldExtractor strategies txt requested =
     map (\<lambda>f. (f, case strategies f txt of
                    None \<Rightarrow> \<lparr>extracted_value = None, extraction_confidence = 0\<rparr>
                  | Some (v, c) \<Rightarrow> \<lparr>extracted_value = Some v, extraction_confidence = c\<rparr>))
       (case requested of
          None \<Rightarrow> field_vocabulary
        | Some names \<Rightarrow> filter (\<lambda>f. field_name f \<in> set names) field_vocabulary)"

text \<open>Modelled from the spec: the score of one field, "exact_match (normalized string
  equality) and a character-level F1 (reusing the TextAligner alignment primitive on the
  two field values)" (the field scorer is missing from the sources). A field without an
  extracted value scores 0.\<close>

record field_score =
  field_exact_match :: real
  field_f1 :: real

definition score_field :: "StructuredData \<Rightarrow> vocabulary_field \<Rightarrow> string \<Rightarrow> field_score" where
  "score_field sd f truth =
     (case map_of sd f of
        None \<Rightarrow> \<lparr>field_exact_match = 0, field_f1 = 0\<rparr>
      | Some ex \<Rightarrow>
          (case extracted_value ex of
             None \<Rightarrow> \<lparr>field_exact_match = 0, field_f1 = 0\<rparr>
           | Some v \<Rightarrow>
               (let m = metrics_of (normalize_text v) (normalize_text truth) (normalize_text v = normalize_text truth)
                in \<lparr>field_exact_match = exact_match m, field_f1 = char_f1 m\<rparr>)))"

text \<open>Modelled from the spec: the field scorer: the per-field entries of the extension
  map, keyed by field name, and \<open>exact_match_per_document\<close>, 1 iff every ground-truth
  field matches exactly; nothing without ground-truth fields (missing from the sources).\<close>

record field_scores =
  per_field :: "(string \<times> field_score) list"
  exact_match_per_document :: "real option"

definition FieldScorer :: "StructuredData \<Rightarrow> (vocabulary_field \<times> string) list option \<Rightarrow> field_scores" where
  "FieldScorer sd truth_fields =
     (case truth_fields of
        None \<Rightarrow> \<lparr>per_field = [], exact_match_per_document = None\<rparr>
      | Some ts \<Rightarrow>
          \<lparr>per_field = map (\<lambda>ft. (field_name (fst ft), score_field sd (fst ft) (snd ft))) ts,
           exact_match_per_document =
             Some (if list_all (\<lambda>ft. field_exact_match (score_field sd (fst ft) (snd ft)) = 1) ts
                   then 1 else 0)\<rparr>)"

text \<open>Modelled from the spec: a schema, "a set of required field names, optionally with
  expected value types", and the result of validation (the validator is missing from the
  sources).\<close>

record schema_spec =
  required_keys :: "string list"
  expected_types :: "(string \<times> string) list option"

record SchemaResult =
  json_validity :: bool
  schema_consistency :: bool
  missing_keys :: "string list"

text \<open>Modelled from the spec: the value that the structured data holds under a key, if
  any (missing from the sources).\<close>

definition value_of_key :: "StructuredData \<Rightarrow> string \<Rightarrow> string option" where
  "value_of_key sd k =
     (case find (\<lambda>fe. field_name (fst fe) = k) sd of
        None \<Rightarrow> None
      | Some fe \<Rightarrow> extracted_value (snd fe))"

text \<open>Modelled from the spec: the schema validator. \<open>json_validity\<close> is true for data built
  by the extractor; \<open>schema_consistency\<close> is true iff every required key is present with a
  non-null value and, where a type is specified, the value has it; without a schema both
  flags are true. How a value is matched against a type name is a parameter (missing from
  the sources).\<close>

definition SchemaValidator ::
  "(string \<Rightarrow> string \<Rightarrow> bool) \<Rightarrow> StructuredData \<Rightarrow> schema_spec option \<Rightarrow> SchemaResult"
where
  "SchemaValidator type_matches sd sch =
     (case sch of
        None \<Rightarrow> \<lparr>json_validity = True, schema_consistency = True, missing_keys = []\<rparr>
      | Some sc \<Rightarrow>
          (let missing = filter (\<lambda>k. value_of_key sd k = None) (required_keys sc);
               typed = list_all
                 (\<lambda>k. case value_of_key sd k of
                         None \<Rightarrow> True
                       | Some v \<Rightarrow>
                           (case expected_types sc of
                              None \<Rightarrow> True
                            | Some ts \<Rightarrow>
                                (case map_of ts k of None \<Rightarrow> True | Some ty \<Rightarrow> type_matches ty v)))
                 (required_keys sc)
           in \<lparr>json_validity = True, schema_consistency = (missing = [] \<and> typed),
               missing_keys = missing\<rparr>))"

subsection \<open>Layout and QualityReportBuilder\<close>

text \<open>Modelled from the spec: the data model of tokens, columns and pages (the OCR and PDF
  services are missing from the sources).\<close>

record Token =
  token_text :: string
  box_x :: real
  box_y :: real
  box_width :: real
  box_height :: real
  confidence :: real
  page_index :: nat

datatype column_side = LeftSide | RightSide

datatype language = Ru | En | Mixed | Other

record Column =
  side :: column_side
  column_tokens :: "Token list"
  column_text :: string
  column_language :: language
  confidence_avg :: real
  items_count :: nat

record Page =
  page_number :: nat
  page_columns :: "Column list"
  page_has_multiple_columns :: bool
  page_text :: string
  page_columns_count :: nat

text \<open>Modelled from the spec: what the builder is configured with. The thresholds of the
  column clusterer and of the page assembler and the patterns of the extractor are left
  open by the spec, so layout reconstruction (tokens grouped by page to pages), the
  assembly of the document text and the extraction strategies are parameters, next to
  the alignment cap (missing from the sources).\<close>

record engine_config =
  alignment_cap :: nat
  reconstruct_layout :: "Token list list \<Rightarrow> Page list"
  assemble_text :: "Page list \<Rightarrow> string"
  strategies :: "vocabulary_field \<Rightarrow> string \<Rightarrow> (string \<times> real) option"
  type_matches :: "string \<Rightarrow> string \<Rightarrow> bool"

text \<open>Modelled from the spec: the input of the core, "a per-page list of Tokens, an
  optional reference text, an optional list of expected field names, an optional schema"
  (missing from the sources).\<close>

record engine_input =
  page_tokens :: "Token list list"
  reference_text :: "string option"
  requested_fields :: "string list option"
  required_schema :: "schema_spec option"

text \<open>Modelled from the spec: the report. Next to the parts of the data model it holds
  the record of truncation that the performance policy asks for; the client's declaration
  \<^verbatim>\<open>OCRResponse\<close> names no member for it (the service is missing from the sources).\<close>

record QualityReport =
  extracted_text :: string
  pages :: "Page list"
  total_pages :: nat
  has_multiple_columns :: bool
  structured_data :: StructuredData
  metrics :: "QualityMetrics option"
  field_metrics :: field_scores
  schema_result :: SchemaResult
  truncated :: bool
  processing_time :: real

text \<open>Modelled from the spec: the structural invariants whose violation is an
  \<open>InternalError\<close>, the one failure of the core: a column has at least one token, a page
  has one or two columns, the page numbers are 1-based and increase. An \<open>InputError\<close> is
  raised at the boundary before the core runs, and an alignment overflow is no error
  (missing from the sources).\<close>

datatype engine_error = InternalError

definition page_invariant :: "Page \<Rightarrow> bool" where
  "page_invariant p =
     ((length (page_columns p) = 1 \<or> length (page_columns p) = 2)
      \<and> list_all (\<lambda>c. column_tokens c \<noteq> []) (page_columns p))"

definition layout_invariant :: "Page list \<Rightarrow> bool" where
  "layout_invariant ps =
     (list_all page_invariant ps \<and> list_all (\<lambda>p. 1 \<le> page_number p) ps
      \<and> sorted_wrt (<) (map page_number ps))"

text \<open>Modelled from the spec: the report builder, "pure orchestration": layout, then text
  alignment and field extraction, then scoring and schema validation; the elapsed time is
  the difference of the clock at the end and the start timestamp. It fails only on a
  violated invariant. The core has no ground-truth field mapping among its inputs, so the
  scorer is run without one (missing from the sources).\<close>

definition QualityReportBuilder ::
  "engine_config \<Rightarrow> engine_input \<Rightarrow> real \<Rightarrow> real \<Rightarrow> engine_error + QualityReport"
where
  "QualityReportBuilder cfg inp start_timestamp end_timestamp =
     (let ps = reconstruct_layout cfg (page_tokens inp) in
      if \<not> layout_invariant ps then Inl InternalError
      else
        (let txt = assemble_text cfg ps;
             aligned = TextAligner (alignment_cap cfg) txt (reference_text inp);
             sd = FieldExtractor (strategies cfg) txt (requested_fields inp);
             scores = FieldScorer sd None;
             validated = SchemaValidator (type_matches cfg) sd (required_schema inp)
         in Inr \<lparr>extracted_text = txt,
                 pages = ps,
                 total_pages = length ps,
                 has_multiple_columns = list_ex page_has_multiple_columns ps,
                 structured_data = sd,
                 metrics = aligned_metrics aligned,
                 field_metrics = scores,
                 schema_result = validated,
                 truncated = truncation_occurred aligned,
                 processing_time = end_timestamp - start_timestamp\<rparr>))"

text \<open>Modelled from the spec: the text of the document that the builder aligns and
  extracts from, the pages' text in reading order (missing from the sources).\<close>

definition assembled_text :: "engine_config \<Rightarrow> engine_input \<Rightarrow> string" where
  "assembled_text cfg inp = assemble_text cfg (reconstruct_layout cfg (page_tokens inp))"

text \<open>The value of one metric in the result of the builder: none when the builder failed
  or the report has no metrics.\<close>

definition report_metric ::
  "(QualityMetrics \<Rightarrow> real) \<Rightarrow> engine_error + QualityReport \<Rightarrow> real option"
where
  "report_metric f result =
     (case result of Inl e \<Rightarrow> None | Inr r \<Rightarrow> map_option f (metrics r))"


section \<open>Sample inputs\<close>

text \<open>Concrete values on which the theorems below are instantiated.\<close>

definition docx_file :: File where
  "docx_file = \<lparr>name = ''notes.DOCX'', type = ''application/msword'', file_size = 2048\<rparr>"

definition pdf_request :: OCRRequest where
  "pdf_request =
     \<lparr>request_file = \<lparr>name = ''scan.pdf'', type = ''application/pdf'', file_size = 1024\<rparr>,
      ground_truth = None, expected_fields = None, schema = None\<rparr>"

text \<open>A server that answers every request with the given response, and a language model
  that fails.\<close>

definition respond_with :: "http_response \<Rightarrow> http_request \<Rightarrow> js_error + http_response" where
  "respond_with response request = Inr response"


definition minimal_report :: json where
  "minimal_report = JObject
     [(''extracted_text'', JString ''Ivan Ivanov 01.01.2023''),
      (''structured_data'', JObject [(''date'', JString ''01.01.2023'')]),
      (''metrics'', JObject [(''cer'', JNumber 0), (''exact_match'', JNumber 1)]),
      (''json_validity'', JBool True),
      (''schema_consistency'', JBool True),
      (''processing_time'', JNumber 2.34)]"


text \<open>A configuration of the engine: every non-empty page becomes one left column whose
  text is its tokens joined by spaces, the document text is the pages joined by line
  feeds, no field is extracted, and the alignment cap is 8 characters.\<close>

fun single_column_pages :: "nat \<Rightarrow> Token list list \<Rightarrow> Page list" where
  "single_column_pages n [] = []"
| "single_column_pages n (ts # rest) =
     (if ts = [] then single_column_pages (Suc n) rest
      else \<lparr>page_number = n,
            page_columns =
              [\<lparr>side = LeftSide, column_tokens = ts,
                column_text = join '' '' (map token_text ts),
                column_language = Other,
                confidence_avg = sum_list (map confidence ts) / real (length ts),
                items_count = length ts\<rparr>],
            page_has_multiple_columns = False,
            page_text = join '' '' (map token_text ts),
            page_columns_count = 1\<rparr>
           # single_column_pages (Suc n) rest)"

definition sample_config :: engine_config where
  "sample_config =
     \<lparr>alignment_cap = 8,
      reconstruct_layout = single_column_pages 1,
      assemble_text = (\<lambda>ps. join [CHR 0x0A] (map page_text ps)),
      strategies = (\<lambda>f t. None),
      type_matches = (\<lambda>ty v. True)\<rparr>"

definition word_token :: "string \<Rightarrow> Token" where
  "word_token w =
     \<lparr>token_text = w, box_x = 0, box_y = 0, box_width = 10, box_height = 10,
      confidence = 1, page_index = 0\<rparr>"

text \<open>A document of one page with one token, and a reference text.\<close>

definition sample_input :: "string \<Rightarrow> string \<Rightarrow> engine_input" where
  "sample_input extracted truth =
     \<lparr>page_tokens = [[word_token extracted]], reference_text = Some truth,
      requested_fields = None, required_schema = None\<rparr>"

section \<open>Properties of the client\<close>

subsection \<open>Page navigation\<close>

lemma goToPrevPage_range:
  "ps \<noteq> [] \<Longrightarrow> 0 \<le> p \<Longrightarrow> p < int (length ps) \<Longrightarrow>
   0 \<le> goToPrevPage (Some ps) p \<and> goToPrevPage (Some ps) p < int (length ps)"
  by (simp add: goToPrevPage_def hasPages_def)

lemma goToNextPage_range:
  "ps \<noteq> [] \<Longrightarrow> 0 \<le> p \<Longrightarrow> p < int (length ps) \<Longrightarrow>
   0 \<le> goToNextPage (Some ps) p \<and> goToNextPage (Some ps) p < int (length ps)"
  by (simp add: goToNextPage_def hasPages_def)

lemma navigate_range:
  "ps \<noteq> [] \<Longrightarrow> 0 \<le> p \<Longrightarrow> p < int (length ps) \<Longrightarrow>
   0 \<le> navigate (Some ps) p ns \<and> navigate (Some ps) p ns < int (length ps)"
proof (induction ns arbitrary: p)
  case Nil
  then show ?case by simp
next
  case (Cons n ns)
  show ?case
  proof (cases n)
    case Prev
    with Cons.prems goToPrevPage_range [of ps p] Cons.IH [of "goToPrevPage (Some ps) p"]
    show ?thesis by simp
  next
    case Next
    with Cons.prems goToNextPage_range [of ps p] Cons.IH [of "goToNextPage (Some ps) p"]
    show ?thesis by simp
  qed
qed

text \<open>
  Claim C10. In \<^verbatim>\<open>OCRColumnsDisplay\<close>, for every non-empty list of pages, \<^verbatim>\<open>currentPage\<close>
  starts at 0, each of \<^verbatim>\<open>goToPrevPage\<close> and \<^verbatim>\<open>goToNextPage\<close> takes an index within
  \<open>[0, pages.length - 1]\<close> to an index within it, and so after any sequence of the two the
  index is within it and \<^verbatim>\<open>pages[currentPage]\<close> is a page of the list.
\<close>

theorem currentPage_in_range:
  assumes "ps \<noteq> []"
  shows "initial_currentPage = 0
    \<and> (\<forall>p. 0 \<le> p \<and> p \<le> int (length ps) - 1 \<longrightarrow>
          0 \<le> goToPrevPage (Some ps) p \<and> goToPrevPage (Some ps) p \<le> int (length ps) - 1
          \<and> 0 \<le> goToNextPage (Some ps) p \<and> goToNextPage (Some ps) p \<le> int (length ps) - 1)
    \<and> 0 \<le> navigate (Some ps) initial_currentPage ns
    \<and> navigate (Some ps) initial_currentPage ns \<le> int (length ps) - 1
    \<and> (\<exists>page. page_at ps (navigate (Some ps) initial_currentPage ns) = Some page
          \<and> page \<in> set ps)"
proof -
  from assms have "0 \<le> initial_currentPage" "initial_currentPage < int (length ps)"
    by (simp_all add: initial_currentPage_def)
  with assms navigate_range [of ps initial_currentPage ns]
  have r: "0 \<le> navigate (Some ps) initial_currentPage ns"
          "navigate (Some ps) initial_currentPage ns < int (length ps)"
    by simp_all
  have step: "0 \<le> goToPrevPage (Some ps) p \<and> goToPrevPage (Some ps) p \<le> int (length ps) - 1
      \<and> 0 \<le> goToNextPage (Some ps) p \<and> goToNextPage (Some ps) p \<le> int (length ps) - 1"
    if "0 \<le> p \<and> p \<le> int (length ps) - 1" for p
    using that assms goToPrevPage_range [of ps p] goToNextPage_range [of ps p] by simp
  from r have "\<exists>page. page_at ps (navigate (Some ps) initial_currentPage ns) = Some page
      \<and> page \<in> set ps"
    by (simp add: page_at_def)
  with r step show ?thesis
    by (simp add: initial_currentPage_def)
qed

theorem currentPage_in_range_witness:
  "navigate (Some [''a'', ''b'', ''c'']) initial_currentPage [Next, Next, Next, Prev] = 1
   \<and> page_at [''a'', ''b'', ''c'']
        (navigate (Some [''a'', ''b'', ''c'']) initial_currentPage [Next, Next, Next, Prev])
      = Some ''b''"
  using currentPage_in_range [of "[''a'', ''b'', ''c'']" "[Next, Next, Next, Prev]"]
  by (simp add: initial_currentPage_def goToNextPage_def goToPrevPage_def hasPages_def
        page_at_def)

subsection \<open>The chat action\<close>



subsection \<open>Rejection of unsupported files\<close>

text \<open>A supported file is handed on: the handlers do reach the processing call.\<close>

lemma supported_file_processed:
  "DocUpload_supported f \<Longrightarrow> DocUpload_handleFile (Some f) = [OnFileUpload f]"
  "fileExtension g \<in> set supportedFormats \<Longrightarrow> file_size g \<le> 10 * 1024 * 1024 \<Longrightarrow>
   list_ex is_processing_call (OCRUpload_handleFile env fetch (Some g))"
  by (simp_all add: DocUpload_handleFile_def OCRUpload_handleFile_def Let_def)

text \<open>
  Claim C7. A file that is not of a supported type is rejected by each upload handler
  before anything is processed: \<^verbatim>\<open>DocUpload.handleFile\<close> and \<^verbatim>\<open>OCRUpload.handleFile\<close> do
  nothing but show one destructive toast that names the supported formats; neither
  \<^verbatim>\<open>onFileUpload\<close> nor \<^verbatim>\<open>processDocumentOCR\<close> is called, and nothing is tried again.
\<close>

theorem unsupported_file_rejected:
  "(\<not> DocUpload_supported f \<longrightarrow>
      DocUpload_handleFile (Some f)
        = [Toast \<lparr>variant = Some ''destructive'', title = ''Invalid File Type'',
                  description = Text ''Please upload a .txt or .pdf file.''\<rparr>]
      \<and> \<not> list_ex is_processing_call (DocUpload_handleFile (Some f))
      \<and> length (filter is_toast (DocUpload_handleFile (Some f))) = 1)
   \<and> (fileExtension g \<notin> set supportedFormats \<longrightarrow>
      OCRUpload_handleFile env fetch (Some g)
        = [Toast \<lparr>variant = Some ''destructive'', title = title_unsupported_format,
                  description = Text (supported_formats_prefix @ join '', '' supportedFormats)\<rparr>]
      \<and> \<not> list_ex is_processing_call (OCRUpload_handleFile env fetch (Some g))
      \<and> length (filter is_toast (OCRUpload_handleFile env fetch (Some g))) = 1)"
  by (simp add: DocUpload_handleFile_def OCRUpload_handleFile_def)

lemma fileExtension_docx_file: "fileExtension docx_file = ''.docx''"
  by (simp add: fileExtension_def docx_file_def pop_def toLowerCase_def lower_char_def)

theorem unsupported_file_rejected_witness:
  "\<not> DocUpload_supported docx_file \<and> fileExtension docx_file \<notin> set supportedFormats
   \<and> DocUpload_handleFile (Some docx_file)
        = [Toast \<lparr>variant = Some ''destructive'', title = ''Invalid File Type'',
                  description = Text ''Please upload a .txt or .pdf file.''\<rparr>]
   \<and> OCRUpload_handleFile None (respond_with \<lparr>status = 200, body = None\<rparr>) (Some docx_file)
        = [Toast \<lparr>variant = Some ''destructive'', title = title_unsupported_format,
                  description = Text (supported_formats_prefix @ join '', '' supportedFormats)\<rparr>]"
proof -
  have a: "\<not> DocUpload_supported docx_file"
    by (simp add: DocUpload_supported_def docx_file_def endsWith_def)
  have b: "fileExtension docx_file \<notin> set supportedFormats"
    by (simp add: fileExtension_docx_file supportedFormats_def)
  from a b
    unsupported_file_rejected
      [of docx_file docx_file None "respond_with \<lparr>status = 200, body = None\<rparr>"]
  show ?thesis by simp
qed

subsection \<open>Outcomes of \<^verbatim>\<open>processDocumentOCR\<close>\<close>

lemma read_property_not_null: "j \<noteq> JNull \<Longrightarrow> read_property j k = Inr (member_of j k)"
  by (cases j) simp_all

lemma processDocumentOCR_rejected:
  "fetch (ocr_process_request env request) = Inl e \<Longrightarrow>
   processDocumentOCR env fetch request = Inl e"
  by (simp add: processDocumentOCR_def)

lemma processDocumentOCR_ok:
  "fetch (ocr_process_request env request) = Inr response \<Longrightarrow> ok response \<Longrightarrow>
   processDocumentOCR env fetch request
     = (case body response of None \<Rightarrow> Inl (SyntaxError RuntimeText) | Some j \<Rightarrow> Inr j)"
  by (simp add: processDocumentOCR_def)

lemma processDocumentOCR_not_ok:
  "fetch (ocr_process_request env request) = Inr response \<Longrightarrow> \<not> ok response \<Longrightarrow>
   \<exists>e. processDocumentOCR env fetch request = Inl e"
  by (simp add: processDocumentOCR_def Let_def split: sum.splits option.splits)

lemma processDocumentOCR_unparseable:
  "fetch (ocr_process_request env request) = Inr response \<Longrightarrow> \<not> ok response \<Longrightarrow>
   body response = None \<Longrightarrow>
   processDocumentOCR env fetch request
     = Inl (Error (Text (''HTTP error! status: '' @ show_nat (status response))))"
  by (simp add: processDocumentOCR_def)

lemma processDocumentOCR_no_detail:
  "fetch (ocr_process_request env request) = Inr response \<Longrightarrow> \<not> ok response \<Longrightarrow>
   body response = Some j \<Longrightarrow> j \<noteq> JNull \<Longrightarrow> \<not> truthy (member_of j ''detail'') \<Longrightarrow>
   processDocumentOCR env fetch request
     = Inl (Error (Text (''HTTP error! status: '' @ show_nat (status response))))"
  by (cases "member_of j ''detail''")
     (simp_all add: processDocumentOCR_def read_property_not_null del: truthy.simps)

lemma processDocumentOCR_detail:
  "fetch (ocr_process_request env request) = Inr response \<Longrightarrow> \<not> ok response \<Longrightarrow>
   body response = Some j \<Longrightarrow> member_of j ''detail'' = Some d \<Longrightarrow> truthy (Some d) \<Longrightarrow>
   processDocumentOCR env fetch request = Inl (Error (message_of_value d))"
proof -
  assume a: "fetch (ocr_process_request env request) = Inr response" "\<not> ok response"
    "body response = Some j" "member_of j ''detail'' = Some d" "truthy (Some d)"
  then have "j \<noteq> JNull" by auto
  with a show ?thesis
    by (simp add: processDocumentOCR_def read_property_not_null)
qed

text \<open>
  Claim C8, as stated, fails: \<^verbatim>\<open>processDocumentOCR\<close> does not return a report for every ok
  response, since a body that is not JSON makes \<^verbatim>\<open>response.json()\<close> reject; and for a
  response that is not ok whose body is the JSON value \<^verbatim>\<open>null\<close>, reading
  \<^verbatim>\<open>errorData.detail\<close> throws a \<^verbatim>\<open>TypeError\<close> that carries neither the detail nor the
  status.
\<close>

theorem processDocumentOCR_counterexample:
  "processDocumentOCR None (respond_with \<lparr>status = 200, body = None\<rparr>) pdf_request
      = Inl (SyntaxError RuntimeText)
   \<and> processDocumentOCR None (respond_with \<lparr>status = 500, body = Some JNull\<rparr>) pdf_request
      = Inl (TypeError RuntimeText)"
  by (simp add: processDocumentOCR_def ok_def respond_with_def)

text \<open>
  Claim C8, amended. For every call of \<^verbatim>\<open>processDocumentOCR\<close>: a rejection of \<^verbatim>\<open>fetch\<close>
  is passed on; a response that is not ok always makes the function throw and never
  return; the error thrown is \<^verbatim>\<open>Error("HTTP error! status: <status>")\<close> when the body is
  not JSON or is a JSON value other than \<^verbatim>\<open>null\<close> without a truthy \<^verbatim>\<open>detail\<close>, and is
  \<^verbatim>\<open>Error(detail)\<close> when the body has a truthy \<^verbatim>\<open>detail\<close>; an ok response whose body is JSON
  makes it return that value unchanged, and an ok response whose body is not JSON makes
  it throw the parse error. So no failure of the backend is turned into a returned report.
\<close>

theorem processDocumentOCR_outcomes:
  "(\<forall>e. fetch (ocr_process_request env request) = Inl e \<longrightarrow>
       processDocumentOCR env fetch request = Inl e)
   \<and> (\<forall>response. fetch (ocr_process_request env request) = Inr response \<longrightarrow>
        (\<not> ok response \<longrightarrow> (\<exists>e. processDocumentOCR env fetch request = Inl e))
      \<and> (\<not> ok response \<and> body response = None \<longrightarrow>
           processDocumentOCR env fetch request
             = Inl (Error (Text (''HTTP error! status: '' @ show_nat (status response)))))
      \<and> (\<forall>j. \<not> ok response \<and> body response = Some j \<and> j \<noteq> JNull
                \<and> \<not> truthy (member_of j ''detail'') \<longrightarrow>
           processDocumentOCR env fetch request
             = Inl (Error (Text (''HTTP error! status: '' @ show_nat (status response)))))
      \<and> (\<forall>j d. \<not> ok response \<and> body response = Some j
                \<and> member_of j ''detail'' = Some d \<and> truthy (Some d) \<longrightarrow>
           processDocumentOCR env fetch request = Inl (Error (message_of_value d)))
      \<and> (\<forall>j. ok response \<and> body response = Some j \<longrightarrow>
           processDocumentOCR env fetch request = Inr j)
      \<and> (ok response \<and> body response = None \<longrightarrow>
           processDocumentOCR env fetch request = Inl (SyntaxError RuntimeText)))"
  using processDocumentOCR_rejected [of fetch env request]
    processDocumentOCR_not_ok [of fetch env request]
    processDocumentOCR_unparseable [of fetch env request]
    processDocumentOCR_no_detail [of fetch env request]
    processDocumentOCR_detail [of fetch env request]
    processDocumentOCR_ok [of fetch env request]
  by (intro conjI allI impI) (simp_all del: truthy.simps)

theorem processDocumentOCR_outcomes_witness:
  "processDocumentOCR None
      (respond_with \<lparr>status = 500,
                 body = Some (JObject [(''detail'', JString ''OCR engine failed'')])\<rparr>)
      pdf_request
     = Inl (Error (Text ''OCR engine failed''))
   \<and> processDocumentOCR None (respond_with \<lparr>status = 502, body = None\<rparr>) pdf_request
     = Inl (Error (Text ''HTTP error! status: 502''))
   \<and> processDocumentOCR None (respond_with \<lparr>status = 200, body = Some minimal_report\<rparr>) pdf_request
     = Inr minimal_report"
  using processDocumentOCR_outcomes
      [of "respond_with \<lparr>status = 500,
                      body = Some (JObject [(''detail'', JString ''OCR engine failed'')])\<rparr>"
          None pdf_request]
    processDocumentOCR_outcomes [of "respond_with \<lparr>status = 502, body = None\<rparr>" None pdf_request]
    processDocumentOCR_outcomes
      [of "respond_with \<lparr>status = 200, body = Some minimal_report\<rparr>" None pdf_request]
  by (simp add: ok_def show_nat.simps respond_with_def)

subsection \<open>The shape of a response\<close>







lemma minimal_report_conforms: "is_OCRResponse minimal_report"
  by (simp add: is_OCRResponse_def minimal_report_def required_def optional_def)





section \<open>Properties of the engine\<close>

subsection \<open>Alignment\<close>

lemma edit_cost_simps [simp]:
  "edit_cost [] = 0"
  "edit_cost (Match # ops) = edit_cost ops"
  "edit_cost (Substitute # ops) = Suc (edit_cost ops)"
  "edit_cost (Insert # ops) = Suc (edit_cost ops)"
  "edit_cost (Delete # ops) = Suc (edit_cost ops)"
  by (simp_all add: edit_cost_def)

lemma matched_simps [simp]:
  "matched [] = 0"
  "matched (Match # ops) = Suc (matched ops)"
  "matched (Substitute # ops) = matched ops"
  "matched (Insert # ops) = matched ops"
  "matched (Delete # ops) = matched ops"
  by (simp_all add: matched_def)

lemma edit_cost_replicate:
  "edit_cost (replicate n Match) = 0"
  "edit_cost (replicate n Insert) = n"
  "edit_cost (replicate n Delete) = n"
  by (induction n) simp_all

lemma matched_replicate:
  "matched (replicate n Match) = n"
  "matched (replicate n Insert) = 0"
  "matched (replicate n Delete) = 0"
  by (induction n) simp_all

lemma align_same: "align xs xs = replicate (length xs) Match"
  by (induction xs) simp_all

lemma edit_distance_Nil2 [simp]: "edit_distance xs [] = length xs"
  by (cases xs) simp_all

lemma edit_distance_drop_left: "edit_distance (x # xs) ys \<le> edit_distance xs ys + 1"
  by (cases ys) simp_all

lemma edit_distance_drop_right: "edit_distance xs (y # ys) \<le> edit_distance xs ys + 1"
  by (cases xs) simp_all

lemma edit_distance_add_right: "edit_distance xs ys \<le> edit_distance xs (y # ys) + 1"
proof (induction xs arbitrary: ys y)
  case Nil
  then show ?case by simp
next
  case (Cons x xs)
  have a: "edit_distance (x # xs) ys \<le> edit_distance xs ys + 1"
    by (rule edit_distance_drop_left)
  have b: "edit_distance xs ys \<le> edit_distance xs (y # ys) + 1"
    by (rule Cons.IH)
  from a b show ?case by (simp add: min_def)
qed

lemma edit_distance_add_left: "edit_distance xs ys \<le> edit_distance (x # xs) ys + 1"
proof (induction ys arbitrary: xs x)
  case Nil
  then show ?case by simp
next
  case (Cons y ys)
  have a: "edit_distance xs (y # ys) \<le> edit_distance xs ys + 1"
    by (rule edit_distance_drop_right)
  have b: "edit_distance xs ys \<le> edit_distance (x # xs) ys + 1"
    by (rule Cons.IH)
  from a b show ?case by (simp add: min_def)
qed

lemma edit_distance_same_head: "edit_distance (x # xs) (x # ys) = edit_distance xs ys"
  using edit_distance_add_right [of xs ys x] edit_distance_add_left [of xs ys x]
  by (simp add: min_def)

lemma edit_cost_align: "edit_cost (align xs ys) = edit_distance xs ys"
proof (induction xs ys rule: align.induct)
  case (1 ys)
  then show ?case by (simp add: edit_cost_replicate)
next
  case (2 x xs)
  then show ?case by (simp add: edit_cost_replicate del: replicate_Suc)
next
  case (3 x xs y ys)
  show ?case
  proof (cases "x = y")
    case True
    with 3 show ?thesis by (simp add: edit_distance_same_head del: edit_distance.simps)
  next
    case False
    with 3 show ?thesis by (simp add: Let_def min_def)
  qed
qed

lemma is_alignment_replicate_Insert: "is_alignment (replicate (length ys) Insert) [] ys"
  by (induction ys) simp_all

lemma is_alignment_replicate_Delete: "is_alignment (replicate (length xs) Delete) xs []"
  by (induction xs) simp_all

lemma align_is_alignment: "is_alignment (align xs ys) xs ys"
proof (induction xs ys rule: align.induct)
  case (1 ys)
  then show ?case by (simp add: is_alignment_replicate_Insert)
next
  case (2 x xs)
  from is_alignment_replicate_Delete [of "x # xs"] show ?case by simp
next
  case (3 x xs y ys)
  then show ?case by (simp add: Let_def)
qed

lemma alignment_cost_ge:
  "is_alignment ops xs ys \<Longrightarrow> edit_distance xs ys \<le> edit_cost ops"
proof (induction ops arbitrary: xs ys)
  case Nil
  then show ?case by simp
next
  case (Cons op ops)
  show ?case
  proof (cases op)
    case Match
    with Cons.prems obtain x xs' ys' where s: "xs = x # xs'" "ys = x # ys'"
      and a: "is_alignment ops xs' ys'"
      by (auto split: list.splits)
    from Cons.IH [OF a] s Match show ?thesis
      by (simp add: edit_distance_same_head del: edit_distance.simps)
  next
    case Substitute
    with Cons.prems obtain x xs' y ys' where s: "xs = x # xs'" "ys = y # ys'"
      and a: "is_alignment ops xs' ys'"
      by (auto split: list.splits)
    from Cons.IH [OF a] s Substitute show ?thesis
      by (simp add: min_def)
  next
    case Insert
    with Cons.prems obtain y ys' where s: "ys = y # ys'" and a: "is_alignment ops xs ys'"
      by (auto split: list.splits)
    from Cons.IH [OF a] edit_distance_drop_right [of xs y ys'] s Insert show ?thesis
      by simp
  next
    case Delete
    with Cons.prems obtain x xs' where s: "xs = x # xs'" and a: "is_alignment ops xs' ys"
      by (auto split: list.splits)
    from Cons.IH [OF a] edit_distance_drop_left [of x xs' ys] s Delete show ?thesis
      by simp
  qed
qed

text \<open>The alignment that the aligner reads off is an alignment of the two sequences, its
  cost is the edit distance, and no alignment is cheaper.\<close>

lemma align_optimal:
  "is_alignment (align xs ys) xs ys \<and> edit_cost (align xs ys) = edit_distance xs ys
   \<and> (\<forall>ops. is_alignment ops xs ys \<longrightarrow> edit_cost (align xs ys) \<le> edit_cost ops)"
  by (simp add: align_is_alignment edit_cost_align alignment_cost_ge)

lemma edit_distance_le_max: "edit_distance xs ys \<le> max (length xs) (length ys)"
proof (induction xs ys rule: edit_distance.induct)
  case (3 x xs y ys)
  have "edit_distance (x # xs) (y # ys) \<le> edit_distance xs ys + 1"
    by (simp add: min_def)
  with 3 show ?case by simp
qed simp_all

lemma align_counts:
  "matched (align xs ys) + length (filter (\<lambda>op. op = Substitute) (align xs ys))
     + length (filter (\<lambda>op. op = Delete) (align xs ys)) = length xs
   \<and> matched (align xs ys) + length (filter (\<lambda>op. op = Substitute) (align xs ys))
     + length (filter (\<lambda>op. op = Insert) (align xs ys)) = length ys"
proof (induction xs ys rule: align.induct)
  case (1 ys)
  then show ?case by (simp add: matched_replicate)
next
  case (2 x xs)
  then show ?case by (simp add: matched_replicate del: replicate_Suc)
next
  case (3 x xs y ys)
  then show ?case by (simp add: Let_def)
qed

lemma matched_le: "matched (align xs ys) \<le> length xs" "matched (align xs ys) \<le> length ys"
  using align_counts [of xs ys] by simp_all


lemma ratio_nonneg: "0 \<le> real a / real b"
  by simp

lemma ratio_le_one: "a \<le> b \<Longrightarrow> 0 < b \<Longrightarrow> real a / real b \<le> 1"
  by (simp add: divide_le_eq)

lemma harmonic_mean_bounds:
  assumes "0 \<le> p" "p \<le> 1" "0 \<le> r" "r \<le> 1"
  shows "0 \<le> harmonic_mean p r \<and> harmonic_mean p r \<le> 1"
proof (cases "p = 0 \<and> r = 0")
  case True
  then show ?thesis by (simp add: harmonic_mean_def)
next
  case False
  with assms have pos: "0 < p + r" by auto
  from assms have "p * r \<le> p * 1" by (intro mult_left_mono) auto
  moreover from assms have "p * r \<le> 1 * r" by (intro mult_right_mono) auto
  ultimately have "2 * p * r \<le> p + r" by simp
  with pos have le: "2 * p * r / (p + r) \<le> 1" by (simp add: divide_le_eq)
  from assms pos have "0 \<le> 2 * p * r / (p + r)" by (intro divide_nonneg_pos) auto
  with le False show ?thesis by (simp add: harmonic_mean_def)
qed

lemma clamp_unit_bounds: "0 \<le> v \<Longrightarrow> 0 \<le> clamp_unit v \<and> clamp_unit v \<le> 1"
  by (simp add: clamp_unit_def)

lemma clamp_unit_inactive: "v \<le> 1 \<Longrightarrow> clamp_unit v = v"
  by (simp add: clamp_unit_def)

lemma metrics_of_rates:
  "0 \<le> cer (metrics_of e g same) \<and> cer (metrics_of e g same) \<le> 1"
  "0 \<le> wer (metrics_of e g same) \<and> wer (metrics_of e g same) \<le> 1"
  "0 \<le> normalized_levenshtein (metrics_of e g same)
   \<and> normalized_levenshtein (metrics_of e g same) \<le> 1"
  by (simp_all add: metrics_of_def Let_def clamp_unit_bounds)

text \<open>The clamp never changes \<open>normalized_levenshtein\<close>: the edit distance is at most the
  longer length.\<close>

lemma metrics_of_levenshtein:
  "normalized_levenshtein (metrics_of e g same)
     = real (edit_cost (align e g)) / real (levenshtein_denominator e g)"
proof -
  have "edit_cost (align e g) \<le> levenshtein_denominator e g"
    using edit_distance_le_max [of e g]
    by (simp add: edit_cost_align levenshtein_denominator_def)
  moreover have "0 < levenshtein_denominator e g"
    by (simp add: levenshtein_denominator_def)
  ultimately have "real (edit_cost (align e g)) / real (levenshtein_denominator e g) \<le> 1"
    by (rule ratio_le_one)
  then show ?thesis
    by (simp add: metrics_of_def Let_def clamp_unit_inactive)
qed

lemma metrics_of_nonneg:
  "0 \<le> char_precision (metrics_of e g same)" "0 \<le> char_recall (metrics_of e g same)"
  by (simp_all add: metrics_of_def Let_def)

lemma metrics_of_precision_le: "char_precision (metrics_of e g same) \<le> 1"
proof -
  have "matched (align e g) \<le> precision_denominator e"
    using matched_le(1) [of e g] by (simp add: precision_denominator_def)
  moreover have "0 < precision_denominator e" by (simp add: precision_denominator_def)
  ultimately show ?thesis by (simp add: metrics_of_def Let_def ratio_le_one)
qed

lemma metrics_of_recall_le: "char_recall (metrics_of e g same) \<le> 1"
proof -
  have "matched (align e g) \<le> recall_denominator g"
    using matched_le(2) [of e g] by (simp add: recall_denominator_def)
  moreover have "0 < recall_denominator g" by (simp add: recall_denominator_def)
  ultimately show ?thesis by (simp add: metrics_of_def Let_def ratio_le_one)
qed

lemma metrics_of_f1:
  "char_f1 (metrics_of e g same)
     = harmonic_mean (char_precision (metrics_of e g same)) (char_recall (metrics_of e g same))"
  by (simp add: metrics_of_def Let_def)

lemma metrics_of_f1_bounds:
  "0 \<le> char_f1 (metrics_of e g same) \<and> char_f1 (metrics_of e g same) \<le> 1"
  unfolding metrics_of_f1
  by (rule harmonic_mean_bounds)
     (simp_all add: metrics_of_nonneg metrics_of_precision_le metrics_of_recall_le)

lemma metrics_of_exact_match:
  "exact_match (metrics_of e g same) = (if same then 1 else 0)"
  by (simp add: metrics_of_def Let_def)

text \<open>Where the extracted text is no longer than the reference the clamp is not needed.\<close>

lemma metrics_of_cer_unclamped:
  "length e \<le> length g \<Longrightarrow>
   cer (metrics_of e g same) = real (edit_cost (align e g)) / real (cer_denominator g)"
proof -
  assume "length e \<le> length g"
  then have "edit_cost (align e g) \<le> cer_denominator g"
    using edit_distance_le_max [of e g]
    by (simp add: edit_cost_align cer_denominator_def)
  moreover have "0 < cer_denominator g" by (simp add: cer_denominator_def)
  ultimately have "real (edit_cost (align e g)) / real (cer_denominator g) \<le> 1"
    by (rule ratio_le_one)
  then show ?thesis by (simp add: metrics_of_def Let_def clamp_unit_inactive)
qed

lemma metrics_of_same:
  "cer (metrics_of t t same) = 0" "wer (metrics_of t t same) = 0"
  "normalized_levenshtein (metrics_of t t same) = 0"
  by (simp_all add: metrics_of_def Let_def align_same edit_cost_replicate clamp_unit_def)

lemma TextAligner_metrics:
  "aligned_metrics (TextAligner cap extracted (Some truth))
     = Some (metrics_of (truncate_to cap (normalize_text extracted)) (truncate_to cap (normalize_text truth))
               (normalize_text extracted = normalize_text truth))"
  by (simp add: TextAligner_def Let_def)


subsection \<open>Identity and empty inputs\<close>





text \<open>
  Claim C2. When both the extracted text and the ground truth are empty after
  normalisation, \<open>cer\<close>, \<open>wer\<close> and \<open>normalized_levenshtein\<close> are 0 and \<open>exact_match\<close> is 1,
  and nothing is divided by zero: every denominator is \<open>max(1, \<cdot>)\<close>, which is 1 on these
  inputs and at least 1 on all inputs.
\<close>

theorem empty_metrics:
  assumes "normalize_text extracted = []" and "normalize_text truth = []"
  shows "(\<exists>m. aligned_metrics (TextAligner cap extracted (Some truth)) = Some m
           \<and> cer m = 0 \<and> wer m = 0 \<and> normalized_levenshtein m = 0 \<and> exact_match m = 1)
       \<and> cer_denominator (truncate_to cap (normalize_text truth)) = 1
       \<and> wer_denominator (truncate_to cap (normalize_text truth)) = 1
       \<and> levenshtein_denominator (truncate_to cap (normalize_text extracted))
            (truncate_to cap (normalize_text truth)) = 1
       \<and> precision_denominator (truncate_to cap (normalize_text extracted)) = 1
       \<and> recall_denominator (truncate_to cap (normalize_text truth)) = 1
       \<and> (\<forall>e g. 1 \<le> cer_denominator g \<and> 1 \<le> wer_denominator g
             \<and> 1 \<le> levenshtein_denominator e g \<and> 1 \<le> precision_denominator e
             \<and> 1 \<le> recall_denominator g)"
  using assms
  by (simp add: TextAligner_metrics metrics_of_same metrics_of_exact_match
        cer_denominator_def wer_denominator_def levenshtein_denominator_def
        precision_denominator_def recall_denominator_def truncate_to_def tokenize_def)

lemma normalize_blank: "normalize_text ''   '' = []"
  by (simp add: normalize_text_def case_fold_def lower_char_def is_space_def trim_def)

lemma normalize_empty: "normalize_text [] = []"
  by (simp add: normalize_text_def case_fold_def trim_def)

theorem empty_metrics_witness:
  "normalize_text ''   '' = [] \<and> normalize_text [] = []
   \<and> map_option cer (aligned_metrics (TextAligner 1000 ''   '' (Some []))) = Some 0
   \<and> map_option wer (aligned_metrics (TextAligner 1000 ''   '' (Some []))) = Some 0
   \<and> map_option normalized_levenshtein
        (aligned_metrics (TextAligner 1000 ''   '' (Some []))) = Some 0
   \<and> map_option exact_match (aligned_metrics (TextAligner 1000 ''   '' (Some []))) = Some 1
   \<and> cer_denominator (truncate_to 1000 (normalize_text [])) = 1"
proof -
  from empty_metrics [OF normalize_blank normalize_empty, of 1000]
  obtain m where "aligned_metrics (TextAligner 1000 ''   '' (Some [])) = Some m"
    "cer m = 0" "wer m = 0" "normalized_levenshtein m = 0" "exact_match m = 1"
    and "cer_denominator (truncate_to 1000 (normalize_text [])) = 1"
    by blast
  with normalize_blank normalize_empty show ?thesis by simp
qed

subsection \<open>The report builder\<close>

lemma builder_succeeds:
  "layout_invariant (reconstruct_layout cfg (page_tokens inp)) \<Longrightarrow>
   \<exists>r. QualityReportBuilder cfg inp t0 t1 = Inr r"
  by (simp add: QualityReportBuilder_def Let_def)

lemma builder_report:
  assumes "QualityReportBuilder cfg inp t0 t1 = Inr r"
  shows "layout_invariant (reconstruct_layout cfg (page_tokens inp))"
    and "extracted_text r = assembled_text cfg inp"
    and "metrics r
          = aligned_metrics (TextAligner (alignment_cap cfg) (assembled_text cfg inp) (reference_text inp))"
    and "truncated r
          = truncation_occurred (TextAligner (alignment_cap cfg) (assembled_text cfg inp) (reference_text inp))"
    and "processing_time r = t1 - t0"
  using assms
  by (auto simp: QualityReportBuilder_def Let_def assembled_text_def split: if_splits)

lemma sample_layout:
  "reconstruct_layout sample_config (page_tokens (sample_input e g))
     = [\<lparr>page_number = 1,
         page_columns =
           [\<lparr>side = LeftSide, column_tokens = [word_token e], column_text = e,
             column_language = Other, confidence_avg = 1, items_count = 1\<rparr>],
         page_has_multiple_columns = False, page_text = e, page_columns_count = 1\<rparr>]"
  by (simp add: sample_config_def sample_input_def word_token_def)

lemma sample_layout_invariant:
  "layout_invariant (reconstruct_layout sample_config (page_tokens (sample_input e g)))"
  by (simp add: sample_layout layout_invariant_def page_invariant_def)

lemma sample_assembled_text: "assembled_text sample_config (sample_input e g) = e"
  by (simp add: assembled_text_def sample_layout) (simp add: sample_config_def)

lemma sample_reference: "reference_text (sample_input e g) = Some g"
  by (simp add: sample_input_def)

lemma sample_cap: "alignment_cap sample_config = 8"
  by (simp add: sample_config_def)

lemma normalize_abc: "normalize_text ''abc'' = ''abc''"
  by (simp add: normalize_text_def case_fold_def lower_char_def is_space_def trim_def)

lemma normalize_a: "normalize_text ''a'' = ''a''"
  by (simp add: normalize_text_def case_fold_def lower_char_def is_space_def trim_def)





text \<open>
  Claim C5. In every report that the builder produces, every metric other than the
  per-field entries lies in the closed interval \<open>[0,1]\<close>: \<open>cer\<close>, \<open>wer\<close>,
  \<open>normalized_levenshtein\<close>, \<open>char_precision\<close>, \<open>char_recall\<close>, \<open>char_f1\<close> and
  \<open>exact_match\<close>, the last being 0 or 1.
\<close>

theorem report_metric_bounds:
  assumes "QualityReportBuilder cfg inp t0 t1 = Inr r" and "metrics r = Some m"
  shows "0 \<le> cer m \<and> cer m \<le> 1
       \<and> 0 \<le> wer m \<and> wer m \<le> 1
       \<and> 0 \<le> normalized_levenshtein m \<and> normalized_levenshtein m \<le> 1
       \<and> 0 \<le> char_precision m \<and> char_precision m \<le> 1
       \<and> 0 \<le> char_recall m \<and> char_recall m \<le> 1
       \<and> 0 \<le> char_f1 m \<and> char_f1 m \<le> 1
       \<and> 0 \<le> exact_match m \<and> exact_match m \<le> 1
       \<and> (exact_match m = 0 \<or> exact_match m = 1)"
proof -
  from builder_report(2,3) [OF assms(1)] assms(2)
  have am: "aligned_metrics (TextAligner (alignment_cap cfg) (extracted_text r) (reference_text inp))
      = Some m"
    by simp
  then obtain truth where ref: "reference_text inp = Some truth"
    by (cases "reference_text inp") (simp_all add: TextAligner_def)
  define e where "e = take (alignment_cap cfg) (normalize_text (extracted_text r))"
  define g where "g = take (alignment_cap cfg) (normalize_text truth)"
  define same where "same = (normalize_text (extracted_text r) = normalize_text truth)"
  from am ref have m: "m = metrics_of e g same"
    by (simp add: TextAligner_def Let_def truncate_to_def e_def g_def same_def)
  have "exact_match m = 0 \<or> exact_match m = 1"
    by (simp add: m metrics_of_exact_match)
  then show ?thesis
    using metrics_of_rates [of e g same] metrics_of_nonneg [of e g same]
      metrics_of_precision_le [of e g same] metrics_of_recall_le [of e g same]
      metrics_of_f1_bounds [of e g same]
    unfolding m by auto
qed

text \<open>An extracted text longer than its reference: the ratio of \<open>cer\<close> would be 2, and the
  reported value is 1.\<close>

theorem report_metric_bounds_witness:
  "report_metric cer (QualityReportBuilder sample_config (sample_input ''abc'' ''a'') 0 1)
     = Some 1
   \<and> report_metric wer (QualityReportBuilder sample_config (sample_input ''abc'' ''a'') 0 1)
     = Some 1
   \<and> report_metric normalized_levenshtein
        (QualityReportBuilder sample_config (sample_input ''abc'' ''a'') 0 1) = Some (2 / 3)
   \<and> report_metric char_f1
        (QualityReportBuilder sample_config (sample_input ''abc'' ''a'') 0 1) = Some (1 / 2)
   \<and> report_metric exact_match
        (QualityReportBuilder sample_config (sample_input ''abc'' ''a'') 0 1) = Some 0"
proof -
  from builder_succeeds [OF sample_layout_invariant, of "''abc''" "''a''" 0 1]
  obtain r where r: "QualityReportBuilder sample_config (sample_input ''abc'' ''a'') 0 1 = Inr r"
    by blast
  from builder_report(3) [OF r]
  have m: "metrics r = Some (metrics_of ''abc'' ''a'' False)"
    by (simp add: sample_assembled_text sample_reference sample_cap TextAligner_metrics
          truncate_to_def normalize_abc normalize_a)
  have t: "tokenize ''abc'' = [''abc'']" "tokenize ''a'' = [''a'']"
    by (simp_all add: tokenize_def is_space_def)
  have v: "cer (metrics_of ''abc'' ''a'' False) = 1"
    "wer (metrics_of ''abc'' ''a'' False) = 1"
    "normalized_levenshtein (metrics_of ''abc'' ''a'' False) = 2 / 3"
    "char_f1 (metrics_of ''abc'' ''a'' False) = 1 / 2"
    "exact_match (metrics_of ''abc'' ''a'' False) = 0"
    by (simp_all add: metrics_of_def Let_def t cer_denominator_def wer_denominator_def
          levenshtein_denominator_def precision_denominator_def recall_denominator_def
          harmonic_mean_def clamp_unit_def)
  from report_metric_bounds [OF r m]
  have "cer (metrics_of ''abc'' ''a'' False) \<le> 1 \<and> wer (metrics_of ''abc'' ''a'' False) \<le> 1"
    by simp
  with r m v show ?thesis
    by (simp add: report_metric_def)
qed

end
